theory Spec2Isabelle
  imports Complex_Main
begin

section \<open>The quiz session of \<open>client/src/Page/main/Quiz.tsx\<close>\<close>

text \<open>
  The React component \<open>Quiz\<close> keeps a quiz session in component state, mirrors it into
  one \<open>localStorage\<close> slot and, on completion, updates a Firestore document of the
  signed-in user and navigates to the result page. The component state and everything
  the handlers touch outside it are gathered in one record, \<open>World\<close>; every handler and
  effect of the source is a function on that record. JavaScript numbers that hold
  indices, answers and scores are \<open>int\<close>.
\<close>

subsection \<open>Data\<close>

datatype Difficulty = Easy | Medium | Hard

text \<open>
  The interface \<open>Question\<close>. The field names \<open>_id\<close>, \<open>difficulty\<close> and \<open>text\<close> are
  prefixed: the first is not an Isabelle name, the second is also a field of
  \<open>QuizState\<close>, the third is a keyword.
\<close>

record Question =
  q_id :: "string option"
  q_difficulty :: Difficulty
  q_text :: string
  options :: "string list"
  correctAnswer :: int
  explanation :: string

text \<open>\<open>Question & { userAnswer?: number }\<close>: an absent \<open>userAnswer\<close> is \<open>None\<close>.\<close>

record AnsweredQuestion = Question +
  userAnswer :: "int option"

record QuizState =
  questions :: "AnsweredQuestion list"
  currentQuestionIndex :: int
  score :: int
  difficulty :: Difficulty

text \<open>
  The item under \<open>QUIZ_STATE_KEY\<close>. \<open>Encoded s\<close> is the text \<open>JSON.stringify(s)\<close>, which
  \<open>JSON.parse\<close> reads back as \<open>s\<close>; \<open>Garbled\<close> is a non-empty text that is not JSON, on
  which \<open>JSON.parse\<close> throws. These are the texts the typed handlers below work on; a
  JSON text of another shape than \<open>QuizState\<close> is a \<open>storedText\<close>, on which the start
  effect is \<open>startEffect\<close>.
\<close>

datatype stored = Garbled | Encoded QuizState

datatype error = SyntaxError | TypeError

text \<open>The four \<open>console\<close> messages of the file, in source order.\<close>

datatype log = FetchNotOk | FetchError | AlreadyAnswered | ScoreUpdateFailed

text \<open>\<open>navigate("/complete", { state: { score, total } })\<close>.\<close>

datatype navigation = Complete int nat

text \<open>
  The fields of the user's Firestore document that \<open>handleComplete\<close> reads and writes.
  A missing numeric field is the number 0, which is what both \<open>|| 0\<close> and \<open>increment\<close>
  make of it. The average is a real number here and a double in the source.
\<close>

record UserData =
  totalGames :: int
  totalScore :: int
  averageScore :: real

text \<open>What \<open>fetch\<close> and \<open>response.json()\<close> give: a throw, a response that is not ok, or a list of questions.\<close>

datatype fetch_outcome = FetchThrows | ResponseNotOk | ResponseOk "Question list"

record World =
  quizState :: "QuizState option"
  showModal :: bool
  isCorrect :: bool
  showExplanation :: bool
  localStorage :: "stored option"
  currentUser :: "string option"
  users :: "string \<rightharpoonup> UserData"
  navigated :: "navigation list"
  console :: "log list"

subsection \<open>Helpers\<close>

text \<open>Reading a JavaScript array: \<open>undefined\<close> outside the range.\<close>

definition at_index :: "'a list \<Rightarrow> int \<Rightarrow> 'a option" where
  "at_index xs i = (if 0 \<le> i \<and> i < int (length xs) then Some (xs ! nat i) else None)"

text \<open>A question as the server sends it has no \<open>userAnswer\<close>.\<close>

definition unanswered :: "Question \<Rightarrow> AnsweredQuestion" where
  "unanswered q = \<lparr>q_id = q_id q, q_difficulty = q_difficulty q, q_text = q_text q,
     options = options q, correctAnswer = correctAnswer q, explanation = explanation q,
     userAnswer = None\<rparr>"

definition console_log :: "log \<Rightarrow> World \<Rightarrow> World" where
  "console_log m w = w\<lparr>console := console w @ [m]\<rparr>"

subsection \<open>Handlers and effects\<close>

text \<open>\<open>fetchQuestions\<close> (lines 26 to 48), with the outcome of the request as a parameter.\<close>

definition fetchQuestions :: "Difficulty \<Rightarrow> fetch_outcome \<Rightarrow> World \<Rightarrow> World" where
  "fetchQuestions d resp w =
     (case resp of
        ResponseOk qs \<Rightarrow>
          w\<lparr>quizState := Some \<lparr>questions = map unanswered qs, currentQuestionIndex = 0,
                                score = 0, difficulty = d\<rparr>\<rparr>
      | ResponseNotOk \<Rightarrow> console_log FetchNotOk w
      | FetchThrows \<Rightarrow> console_log FetchError w)"

text \<open>
  \<open>recoverQuizState\<close> (lines 50 to 62). \<open>undefined === correctAnswer\<close> is false, so a
  question counts exactly when its answer is present and equal.
\<close>

definition recoverQuizState :: "QuizState \<Rightarrow> QuizState" where
  "recoverQuizState savedState =
     (let recoveredScore =
            fold (\<lambda>question sc.
                    if userAnswer question = Some (correctAnswer question) then sc + 1 else sc)
                 (questions savedState) 0
      in savedState\<lparr>score := recoveredScore\<rparr>)"

text \<open>
  The first effect (lines 64 to 73) on the items of \<open>stored\<close>. \<open>JSON.parse\<close> is called
  outside any \<open>try\<close>, so its exception leaves the effect.
\<close>

definition mountEffect :: "Difficulty \<Rightarrow> fetch_outcome \<Rightarrow> World \<Rightarrow> error + World" where
  "mountEffect d resp w =
     (case localStorage w of
        None \<Rightarrow> Inr (fetchQuestions d resp (w\<lparr>localStorage := None\<rparr>))
      | Some Garbled \<Rightarrow> Inl SyntaxError
      | Some (Encoded parsedState) \<Rightarrow>
          if difficulty parsedState = d
          then Inr (w\<lparr>quizState := Some (recoverQuizState parsedState)\<rparr>)
          else Inr (fetchQuestions d resp (w\<lparr>localStorage := None\<rparr>)))"

text \<open>The second effect (lines 75 to 79).\<close>

definition persistEffect :: "World \<Rightarrow> World" where
  "persistEffect w =
     (case quizState w of
        None \<Rightarrow> w
      | Some s \<Rightarrow> w\<lparr>localStorage := Some (Encoded s)\<rparr>)"

text \<open>
  \<open>handleAnswer\<close> (lines 81 to 107). The handler reads the rendered state and the
  updater the previous state; React renders after every click before the next one is
  handled, so both are the state of the world. Reading \<open>userAnswer\<close> of an \<open>undefined\<close>
  current question throws.
\<close>

definition handleAnswer :: "int \<Rightarrow> World \<Rightarrow> error + World" where
  "handleAnswer selectedAnswer w =
     (case quizState w of
        None \<Rightarrow> Inr w
      | Some prevState \<Rightarrow>
          (case at_index (questions prevState) (currentQuestionIndex prevState) of
             None \<Rightarrow> Inl TypeError
           | Some currentQuestion \<Rightarrow>
               if userAnswer currentQuestion \<noteq> None then Inr (console_log AlreadyAnswered w)
               else
                 let correct = (selectedAnswer = correctAnswer currentQuestion);
                     newQuestions = (questions prevState)
                       [nat (currentQuestionIndex prevState) :=
                          currentQuestion\<lparr>userAnswer := Some selectedAnswer\<rparr>]
                 in Inr (w\<lparr>isCorrect := correct, showModal := True,
                           quizState := Some (prevState\<lparr>questions := newQuestions,
                             score := (if correct then score prevState + 1
                                       else score prevState)\<rparr>)\<rparr>)))"

text \<open>
  \<open>handleComplete\<close> (lines 134 to 158), run to its end in one step. The two flags say
  whether \<open>getDoc\<close> and \<open>updateDoc\<close> throw; \<open>updateDoc\<close> also throws when the document
  does not exist.
\<close>

definition handleComplete :: "bool \<Rightarrow> bool \<Rightarrow> World \<Rightarrow> World" where
  "handleComplete getDocThrows updateDocThrows w =
     (case quizState w of
        None \<Rightarrow> w
      | Some qs \<Rightarrow>
          let w1 =
            (case currentUser w of
               None \<Rightarrow> w
             | Some uid \<Rightarrow>
                 if getDocThrows then console_log ScoreUpdateFailed w
                 else
                   let userData = users w uid;
                       newTotalGames = (case userData of None \<Rightarrow> 0 | Some u \<Rightarrow> totalGames u) + 1;
                       newTotalScore = (case userData of None \<Rightarrow> 0 | Some u \<Rightarrow> totalScore u)
                                         + score qs;
                       newAverageScore = real_of_int newTotalScore / real_of_int newTotalGames
                   in (case userData of
                         None \<Rightarrow> console_log ScoreUpdateFailed w
                       | Some u \<Rightarrow>
                           if updateDocThrows then console_log ScoreUpdateFailed w
                           else w\<lparr>users := (users w)(uid \<mapsto>
                                  \<lparr>totalGames = totalGames u + 1,
                                   totalScore = totalScore u + score qs,
                                   averageScore = newAverageScore\<rparr>)\<rparr>))
          in w1\<lparr>localStorage := None,
                navigated := navigated w1 @ [Complete (score qs) (length (questions qs))]\<rparr>)"

text \<open>\<open>nextQuestion\<close> (lines 109 to 124).\<close>

definition nextQuestion :: "bool \<Rightarrow> bool \<Rightarrow> World \<Rightarrow> World" where
  "nextQuestion getDocThrows updateDocThrows w =
     (let w' = w\<lparr>showModal := False, showExplanation := False\<rparr>
      in case quizState w' of
           None \<Rightarrow> w'
         | Some prevState \<Rightarrow>
             let nextIndex = currentQuestionIndex prevState + 1
             in if nextIndex \<ge> int (length (questions prevState))
                then handleComplete getDocThrows updateDocThrows w'
                else w'\<lparr>quizState := Some (prevState\<lparr>currentQuestionIndex := nextIndex\<rparr>)\<rparr>)"

text \<open>\<open>identificationButton\<close> (lines 126 to 132).\<close>

definition identificationButton :: "World \<Rightarrow> World" where
  "identificationButton w =
     (if showExplanation w then w\<lparr>showExplanation := False\<rparr>
      else w\<lparr>showExplanation := True\<rparr>)"

subsection \<open>Events\<close>

text \<open>
  What can happen to the mounted component: it is (re)loaded for a tier, with the
  outcome its request will have; an option button is clicked; \<open>nextQuestion\<close> runs
  (the button of the result modal, or closing the explanation modal); the button to
  the result page runs \<open>handleComplete\<close>; the explanation is toggled; the result
  modal's \<open>onClose\<close> runs.
\<close>

datatype event =
    Mount Difficulty fetch_outcome
  | ClickOption int
  | ClickNext bool bool
  | ClickResult bool bool
  | ClickExplanation
  | CloseModal

text \<open>The second effect depends on \<open>[quizState]\<close>: it runs after a handler that set a new state.\<close>

definition rerender :: "World \<Rightarrow> World \<Rightarrow> World" where
  "rerender before after =
     (if quizState after \<noteq> quizState before then persistEffect after else after)"

text \<open>A load starts from the \<open>useState\<close> initial values; the store and the rest of the world stay.\<close>

definition initialState :: "World \<Rightarrow> World" where
  "initialState w = w\<lparr>quizState := None, showModal := False, isCorrect := False,
                       showExplanation := False\<rparr>"

fun step :: "event \<Rightarrow> World \<Rightarrow> error + World" where
  "step (Mount d resp) w =
     (case mountEffect d resp (initialState w) of
        Inl e \<Rightarrow> Inl e
      | Inr w' \<Rightarrow> Inr (rerender (initialState w) w'))"
| "step (ClickOption selectedAnswer) w =
     (case handleAnswer selectedAnswer w of
        Inl e \<Rightarrow> Inl e
      | Inr w' \<Rightarrow> Inr (rerender w w'))"
| "step (ClickNext getDocThrows updateDocThrows) w =
     Inr (rerender w (nextQuestion getDocThrows updateDocThrows w))"
| "step (ClickResult getDocThrows updateDocThrows) w =
     Inr (handleComplete getDocThrows updateDocThrows w)"
| "step ClickExplanation w = Inr (identificationButton w)"
| "step CloseModal w = Inr (w\<lparr>showExplanation := False\<rparr>)"

text \<open>The worlds the component can be in: any world before the first load, and what events make of it.\<close>

inductive reachable :: "World \<Rightarrow> bool" where
  unmounted: "quizState w = None \<Longrightarrow> reachable w"
| event: "reachable w \<Longrightarrow> step e w = Inr w' \<Longrightarrow> reachable w'"

text \<open>The number of questions whose answer is present and equal to the correct one.\<close>

definition correctCount :: "AnsweredQuestion list \<Rightarrow> int" where
  "correctCount qs = int (length (filter (\<lambda>q. userAnswer q = Some (correctAnswer q)) qs))"

text \<open>The current question exists and is answered: the precondition of advancing.\<close>

definition currentAnswered :: "World \<Rightarrow> bool" where
  "currentAnswered w =
     (case quizState w of
        None \<Rightarrow> False
      | Some s \<Rightarrow>
          (case at_index (questions s) (currentQuestionIndex s) of
             None \<Rightarrow> False
           | Some q \<Rightarrow> userAnswer q \<noteq> None))"

fun respectsPrecondition :: "event \<Rightarrow> World \<Rightarrow> bool" where
  "respectsPrecondition (ClickNext g u) w = currentAnswered w"
| "respectsPrecondition e w = True"

text \<open>
  The worlds reached from an empty store when \<open>nextQuestion\<close> only runs on an answered
  question.
\<close>

inductive reachableAnswered :: "World \<Rightarrow> bool" where
  fresh: "quizState w = None \<Longrightarrow> localStorage w = None \<Longrightarrow> reachableAnswered w"
| event: "reachableAnswered w \<Longrightarrow> respectsPrecondition e w \<Longrightarrow> step e w = Inr w'
          \<Longrightarrow> reachableAnswered w'"

text \<open>Every question before the current index has an answer.\<close>

definition noneSkipped :: "QuizState \<Rightarrow> bool" where
  "noneSkipped s =
     list_all (\<lambda>q. userAnswer q \<noteq> None) (take (nat (currentQuestionIndex s)) (questions s))"

subsection \<open>Invariants and traces\<close>

text \<open>The session of a world, when there is one, has the score its answers give.\<close>

definition scoreConsistent :: "World \<Rightarrow> bool" where
  "scoreConsistent w =
     (case quizState w of
        None \<Rightarrow> True
      | Some s \<Rightarrow> score s = correctCount (questions s))"

text \<open>An index that is not negative, and no question skipped before it.\<close>

definition answeredUpTo :: "QuizState \<Rightarrow> bool" where
  "answeredUpTo s = (0 \<le> currentQuestionIndex s \<and> noneSkipped s)"

definition answeredUpToWorld :: "World \<Rightarrow> bool" where
  "answeredUpToWorld w =
     ((case quizState w of None \<Rightarrow> True | Some s \<Rightarrow> answeredUpTo s) \<and>
      (case localStorage w of
         None \<Rightarrow> True
       | Some Garbled \<Rightarrow> False
       | Some (Encoded s) \<Rightarrow> answeredUpTo s))"

text \<open>Running a list of events; the first error ends the run.\<close>

fun run :: "event list \<Rightarrow> World \<Rightarrow> error + World" where
  "run [] w = Inr w"
| "run (e # es) w = (case step e w of Inl x \<Rightarrow> Inl x | Inr w' \<Rightarrow> run es w')"

fun runRespects :: "event list \<Rightarrow> World \<Rightarrow> bool" where
  "runRespects [] w = True"
| "runRespects (e # es) w =
     (respectsPrecondition e w \<and>
      (case step e w of Inl x \<Rightarrow> False | Inr w' \<Rightarrow> runRespects es w'))"

subsection \<open>Concrete sessions\<close>

definition question1 :: Question where
  "question1 = \<lparr>q_id = None, q_difficulty = Medium, q_text = ''first'',
     options = [''a'', ''b''], correctAnswer = 0, explanation = ''why a''\<rparr>"

definition question2 :: Question where
  "question2 = \<lparr>q_id = None, q_difficulty = Medium, q_text = ''second'',
     options = [''c'', ''d''], correctAnswer = 1, explanation = ''why d''\<rparr>"

definition question3 :: Question where
  "question3 = \<lparr>q_id = None, q_difficulty = Medium, q_text = ''third'',
     options = [''e'', ''f''], correctAnswer = 0, explanation = ''why e''\<rparr>"

definition answeredWith :: "Question \<Rightarrow> int \<Rightarrow> AnsweredQuestion" where
  "answeredWith q a = (unanswered q)\<lparr>userAnswer := Some a\<rparr>"

text \<open>Nobody signed in, nothing stored, nothing mounted.\<close>

definition emptyWorld :: World where
  "emptyWorld = \<lparr>quizState = None, showModal = False, isCorrect = False,
     showExplanation = False, localStorage = None, currentUser = None,
     users = Map.empty, navigated = [], console = []\<rparr>"

text \<open>Answers correct, wrong and absent, under a stale score of 99.\<close>

definition staleSnapshot :: QuizState where
  "staleSnapshot = \<lparr>questions = [answeredWith question1 0, answeredWith question2 0,
       unanswered question3],
     currentQuestionIndex = 2, score = 99, difficulty = Medium\<rparr>"

text \<open>A snapshot with no question and an index far outside.\<close>

definition brokenSnapshot :: QuizState where
  "brokenSnapshot = \<lparr>questions = [], currentQuestionIndex = 7, score = 3,
     difficulty = Easy\<rparr>"

text \<open>A one-question session, answered, of a signed-in user who has played no game yet.\<close>

definition lastAnswered :: QuizState where
  "lastAnswered = \<lparr>questions = [answeredWith question1 0], currentQuestionIndex = 0,
     score = 1, difficulty = Medium\<rparr>"

definition signedInWorld :: World where
  "signedInWorld = emptyWorld\<lparr>quizState := Some lastAnswered, showModal := True,
     isCorrect := True, localStorage := Some (Encoded lastAnswered),
     currentUser := Some ''alice'',
     users := [''alice'' \<mapsto> \<lparr>totalGames = 0, totalScore = 0, averageScore = 0\<rparr>]\<rparr>"

text \<open>The two-question session after the first question was answered correctly and left.\<close>

definition secondQuestion :: QuizState where
  "secondQuestion = \<lparr>questions = [answeredWith question1 0, unanswered question2],
     currentQuestionIndex = 1, score = 1, difficulty = Medium\<rparr>"

definition secondQuestionWorld :: World where
  "secondQuestionWorld = emptyWorld\<lparr>quizState := Some secondQuestion, isCorrect := True,
     localStorage := Some (Encoded secondQuestion)\<rparr>"

subsection \<open>The start effect on every stored text\<close>

text \<open>
  What \<open>JSON.parse\<close> gives for a text that parses: \<open>null\<close>, a boolean, a number (an
  integer, as everywhere here), a string, an array, or an object with its members in
  order, each name once.
\<close>

datatype json =
    JNull
  | JBool bool
  | JNum int
  | JStr string
  | JArr "json list"
  | JObj "(string \<times> json) list"









text \<open>
  How the first effect (lines 64 to 73) ends: with an exception, in the \<open>else\<close> branch
  that removes the item and fetches, or with \<open>setQuizState\<close> of a recovered value.
\<close>

datatype start = Threw error | RemoveAndFetch | SetState json







section \<open>Properties\<close>

subsection \<open>Counting correct answers\<close>

lemma fold_count:
  "fold (\<lambda>q sc. if P q then sc + 1 else sc) xs (a::int) = a + int (length (filter P xs))"
  by (induction xs arbitrary: a) auto

lemma recover_score: "score (recoverQuizState s) = correctCount (questions s)"
  by (simp add: recoverQuizState_def correctCount_def fold_count)

lemma recover_fields:
  "questions (recoverQuizState s) = questions s"
  "currentQuestionIndex (recoverQuizState s) = currentQuestionIndex s"
  "difficulty (recoverQuizState s) = difficulty s"
  by (simp_all add: recoverQuizState_def Let_def)

lemma filter_update_length:
  "i < length xs \<Longrightarrow>
   int (length (filter P (xs[i := y]))) =
   int (length (filter P xs)) - (if P (xs ! i) then 1 else 0) + (if P y then 1 else 0)"
proof (induction xs arbitrary: i)
  case Nil
  then show ?case by simp
next
  case (Cons x xs)
  show ?case
  proof (cases i)
    case 0
    then show ?thesis by simp
  next
    case (Suc n)
    with Cons.prems have "n < length xs" by simp
    from Cons.IH[OF this] Suc show ?thesis by (auto split: if_splits)
  qed
qed

subsection \<open>Every step keeps the score consistent\<close>

lemma persist_quizState: "quizState (persistEffect w) = quizState w"
  by (simp add: persistEffect_def split: option.splits)

lemma rerender_quizState: "quizState (rerender w0 w) = quizState w"
  by (simp add: rerender_def persist_quizState)

lemma rerender_consistent: "scoreConsistent (rerender w0 w) = scoreConsistent w"
  by (simp add: scoreConsistent_def rerender_quizState)

lemma fetch_consistent: "scoreConsistent w \<Longrightarrow> scoreConsistent (fetchQuestions d resp w)"
  by (cases resp)
     (auto simp: fetchQuestions_def scoreConsistent_def console_log_def correctCount_def
        unanswered_def filter_empty_conv split: option.splits)

lemma mount_consistent:
  assumes "mountEffect d resp (initialState w) = Inr w'"
  shows "scoreConsistent w'"
proof -
  have start: "scoreConsistent ((initialState w)\<lparr>localStorage := None\<rparr>)"
    by (simp add: scoreConsistent_def initialState_def)
  show ?thesis
  proof (cases "localStorage (initialState w)")
    case None
    with assms start show ?thesis
      by (auto simp: mountEffect_def intro: fetch_consistent)
  next
    case (Some item)
    show ?thesis
    proof (cases item)
      case Garbled
      with Some assms show ?thesis by (simp add: mountEffect_def)
    next
      case (Encoded saved)
      with Some assms start show ?thesis
        by (auto simp: mountEffect_def scoreConsistent_def recover_score recover_fields
            split: if_splits intro: fetch_consistent[unfolded scoreConsistent_def])
    qed
  qed
qed

lemma answer_consistent:
  "scoreConsistent w \<Longrightarrow> handleAnswer a w = Inr w' \<Longrightarrow> scoreConsistent w'"
  by (auto simp: handleAnswer_def scoreConsistent_def console_log_def at_index_def Let_def
        correctCount_def filter_update_length
      split: option.splits if_splits)

lemma complete_quizState: "quizState (handleComplete g u w) = quizState w"
  by (simp add: handleComplete_def Let_def console_log_def split: option.splits)

lemma next_consistent: "scoreConsistent w \<Longrightarrow> scoreConsistent (nextQuestion g u w)"
  by (auto simp: nextQuestion_def Let_def scoreConsistent_def complete_quizState
      split: option.splits)

lemma step_consistent:
  assumes "scoreConsistent w" and "step e w = Inr w'"
  shows "scoreConsistent w'"
proof (cases e)
  case (Mount d resp)
  with assms show ?thesis
    by (auto simp: rerender_consistent split: sum.splits dest: mount_consistent)
next
  case (ClickOption a)
  with assms show ?thesis
    by (auto simp: rerender_consistent split: sum.splits dest: answer_consistent)
next
  case (ClickNext g u)
  with assms show ?thesis
    by (auto simp: rerender_consistent next_consistent)
next
  case (ClickResult g u)
  with assms show ?thesis
    by (auto simp: scoreConsistent_def complete_quizState)
next
  case ClickExplanation
  with assms show ?thesis
    by (auto simp: identificationButton_def scoreConsistent_def)
next
  case CloseModal
  with assms show ?thesis
    by (auto simp: scoreConsistent_def)
qed

lemma run_reachable: "reachable w \<Longrightarrow> run es w = Inr w' \<Longrightarrow> reachable w'"
proof (induction es arbitrary: w)
  case Nil
  then show ?case by simp
next
  case (Cons e es)
  then show ?case
    by (auto split: sum.splits intro: reachable.event)
qed

lemmas handlers =
  initialState_def mountEffect_def fetchQuestions_def recoverQuizState_def rerender_def
  persistEffect_def handleAnswer_def handleComplete_def nextQuestion_def at_index_def
  console_log_def unanswered_def Let_def

lemma run_to_second_question:
  "run [Mount Medium (ResponseOk [question1, question2]), ClickOption 0, ClickNext False False]
     emptyWorld = Inr secondQuestionWorld"
  by (simp add: handlers emptyWorld_def secondQuestionWorld_def secondQuestion_def
      answeredWith_def question1_def question2_def)

text \<open>
  C1. In every reachable world the score of the session equals the number of its
  questions whose \<open>userAnswer\<close> is defined and equal to \<open>correctAnswer\<close>. The worlds
  before the first load hold any item in the store, so the state right after a
  recovery from any snapshot is among the reachable ones.
\<close>

theorem score_counts_correct_answers:
  assumes "reachable w" and "quizState w = Some s"
  shows "score s =
    int (length (filter (\<lambda>q. userAnswer q = Some (correctAnswer q)) (questions s)))"
proof -
  from assms(1) have "scoreConsistent w"
  proof (induction rule: reachable.induct)
    case (unmounted w)
    then show ?case by (simp add: scoreConsistent_def)
  next
    case (event w e w')
    then show ?case by (blast intro: step_consistent)
  qed
  with assms(2) show ?thesis
    by (simp add: scoreConsistent_def correctCount_def)
qed

theorem score_counts_correct_answers_witness:
  "reachable secondQuestionWorld \<and> quizState secondQuestionWorld = Some secondQuestion \<and>
   score secondQuestion = 1 \<and>
   int (length (filter (\<lambda>q. userAnswer q = Some (correctAnswer q))
     (questions secondQuestion))) = 1"
proof -
  have "reachable emptyWorld"
    by (rule reachable.unmounted) (simp add: emptyWorld_def)
  then have r: "reachable secondQuestionWorld"
    by (rule run_reachable) (rule run_to_second_question)
  have q: "quizState secondQuestionWorld = Some secondQuestion"
    by (simp add: secondQuestionWorld_def emptyWorld_def)
  have s: "score secondQuestion = 1"
    by (simp add: secondQuestion_def)
  from score_counts_correct_answers[OF r q] r q s show ?thesis by simp
qed

subsection \<open>Recovery\<close>

text \<open>
  C2. When the stored snapshot has the requested tier, the start effect makes the
  recovered snapshot the session; its score is the count of the snapshot's questions
  answered correctly, and the score stored in the snapshot has no effect on the
  recovered session.
\<close>

theorem recover_recomputes_score:
  assumes "localStorage w = Some (Encoded snap)" and "difficulty snap = d"
  shows "mountEffect d resp w = Inr (w\<lparr>quizState := Some (recoverQuizState snap)\<rparr>) \<and>
         score (recoverQuizState snap) = correctCount (questions snap) \<and>
         recoverQuizState (snap\<lparr>score := stale\<rparr>) = recoverQuizState snap"
  using assms
  by (simp add: mountEffect_def recover_score) (simp add: recoverQuizState_def)

theorem recover_recomputes_score_witness:
  "localStorage (emptyWorld\<lparr>localStorage := Some (Encoded staleSnapshot)\<rparr>)
     = Some (Encoded staleSnapshot) \<and>
   difficulty staleSnapshot = Medium \<and>
   score staleSnapshot = 99 \<and>
   mountEffect Medium FetchThrows (emptyWorld\<lparr>localStorage := Some (Encoded staleSnapshot)\<rparr>)
     = Inr (emptyWorld\<lparr>localStorage := Some (Encoded staleSnapshot),
                        quizState := Some (recoverQuizState staleSnapshot)\<rparr>) \<and>
   score (recoverQuizState staleSnapshot) = 1 \<and>
   recoverQuizState (staleSnapshot\<lparr>score := 0\<rparr>) = recoverQuizState staleSnapshot"
proof -
  have a: "localStorage (emptyWorld\<lparr>localStorage := Some (Encoded staleSnapshot)\<rparr>)
     = Some (Encoded staleSnapshot)"
    by simp
  have b: "difficulty staleSnapshot = Medium"
    by (simp add: staleSnapshot_def)
  have c: "correctCount (questions staleSnapshot) = 1"
    by (simp add: correctCount_def staleSnapshot_def answeredWith_def unanswered_def
        question1_def question2_def question3_def)
  have e: "score staleSnapshot = 99"
    by (simp add: staleSnapshot_def)
  from recover_recomputes_score[OF a b, of FetchThrows 0] a b c e show ?thesis
    by simp
qed

text \<open>
  C10. For a snapshot of the requested tier the recovered session is the snapshot with
  its score field replaced: the questions with their answers, the index and the tier are
  those of the snapshot.
\<close>

theorem recover_replaces_only_score:
  assumes "localStorage w = Some (Encoded snap)" and "difficulty snap = d"
  shows "mountEffect d resp w =
           Inr (w\<lparr>quizState := Some (snap\<lparr>score := score (recoverQuizState snap)\<rparr>)\<rparr>) \<and>
         questions (recoverQuizState snap) = questions snap \<and>
         currentQuestionIndex (recoverQuizState snap) = currentQuestionIndex snap \<and>
         difficulty (recoverQuizState snap) = difficulty snap"
  using assms by (simp add: mountEffect_def recoverQuizState_def Let_def)

theorem recover_replaces_only_score_witness:
  "localStorage (emptyWorld\<lparr>localStorage := Some (Encoded staleSnapshot)\<rparr>)
     = Some (Encoded staleSnapshot) \<and>
   difficulty staleSnapshot = Medium \<and>
   mountEffect Medium (ResponseOk []) (emptyWorld\<lparr>localStorage := Some (Encoded staleSnapshot)\<rparr>)
     = Inr (emptyWorld\<lparr>localStorage := Some (Encoded staleSnapshot),
                        quizState := Some (staleSnapshot\<lparr>score := 1\<rparr>)\<rparr>) \<and>
   questions (recoverQuizState staleSnapshot) = questions staleSnapshot \<and>
   currentQuestionIndex (recoverQuizState staleSnapshot) = 2 \<and>
   difficulty (recoverQuizState staleSnapshot) = Medium"
proof -
  have a: "localStorage (emptyWorld\<lparr>localStorage := Some (Encoded staleSnapshot)\<rparr>)
     = Some (Encoded staleSnapshot)"
    by simp
  have b: "difficulty staleSnapshot = Medium"
    by (simp add: staleSnapshot_def)
  have c: "score (recoverQuizState staleSnapshot) = 1"
    by (simp add: recoverQuizState_def staleSnapshot_def answeredWith_def unanswered_def
        question1_def question2_def question3_def)
  have i: "currentQuestionIndex staleSnapshot = 2"
    by (simp add: staleSnapshot_def)
  from recover_replaces_only_score[OF a b, of "ResponseOk []"] a b c i show ?thesis
    by simp
qed

subsection \<open>Answering\<close>

text \<open>
  C3. When the current question of the session already has an answer, \<open>handleAnswer\<close>
  with any index returns without an error and changes nothing but the console, where it
  leaves its message: the answers, the score, the flags and the store stay as they are,
  and no new snapshot is written.
\<close>

theorem answer_again_is_ignored:
  assumes "quizState w = Some s"
    and "at_index (questions s) (currentQuestionIndex s) = Some q"
    and "userAnswer q = Some a"
  shows "handleAnswer selectedAnswer w = Inr (w\<lparr>console := console w @ [AlreadyAnswered]\<rparr>) \<and>
         step (ClickOption selectedAnswer) w =
           Inr (w\<lparr>console := console w @ [AlreadyAnswered]\<rparr>) \<and>
         quizState (w\<lparr>console := console w @ [AlreadyAnswered]\<rparr>) = Some s"
  using assms by (simp add: handleAnswer_def console_log_def rerender_def)

theorem answer_again_is_ignored_witness:
  "quizState signedInWorld = Some lastAnswered \<and>
   at_index (questions lastAnswered) (currentQuestionIndex lastAnswered)
     = Some (answeredWith question1 0) \<and>
   userAnswer (answeredWith question1 0) = Some 0 \<and>
   handleAnswer 1 signedInWorld = Inr (signedInWorld\<lparr>console := [AlreadyAnswered]\<rparr>) \<and>
   step (ClickOption 1) signedInWorld = Inr (signedInWorld\<lparr>console := [AlreadyAnswered]\<rparr>) \<and>
   quizState (signedInWorld\<lparr>console := [AlreadyAnswered]\<rparr>) = Some lastAnswered"
proof -
  have a: "quizState signedInWorld = Some lastAnswered"
    by (simp add: signedInWorld_def emptyWorld_def)
  have b: "at_index (questions lastAnswered) (currentQuestionIndex lastAnswered)
     = Some (answeredWith question1 0)"
    by (simp add: lastAnswered_def at_index_def)
  have c: "userAnswer (answeredWith question1 0) = Some 0"
    by (simp add: answeredWith_def)
  have d: "console signedInWorld = []"
    by (simp add: signedInWorld_def emptyWorld_def)
  from answer_again_is_ignored[OF a b c, of 1] a b c d show ?thesis
    by (simp del: step.simps)
qed

subsection \<open>Starting with a snapshot of another tier\<close>

text \<open>
  C6. When the stored snapshot has another tier than the requested one, the start
  effect removes the item from the store and calls \<open>fetchQuestions\<close>; the session is
  then what the request gives (none when it fails) and never the recovered snapshot.
\<close>

theorem other_tier_is_discarded:
  assumes "localStorage w = Some (Encoded snap)" and "difficulty snap \<noteq> d"
    and "quizState w = None"
  shows "mountEffect d resp w = Inr (fetchQuestions d resp (w\<lparr>localStorage := None\<rparr>)) \<and>
         localStorage (fetchQuestions d resp (w\<lparr>localStorage := None\<rparr>)) = None \<and>
         quizState (fetchQuestions d resp (w\<lparr>localStorage := None\<rparr>)) =
           (case resp of
              ResponseOk qs \<Rightarrow> Some \<lparr>questions = map unanswered qs, currentQuestionIndex = 0,
                                      score = 0, difficulty = d\<rparr>
            | ResponseNotOk \<Rightarrow> None
            | FetchThrows \<Rightarrow> None) \<and>
         quizState (fetchQuestions d resp (w\<lparr>localStorage := None\<rparr>))
           \<noteq> Some (recoverQuizState snap)"
proof -
  let ?w' = "fetchQuestions d resp (w\<lparr>localStorage := None\<rparr>)"
  from assms have effect: "mountEffect d resp w = Inr ?w'"
    by (simp add: mountEffect_def)
  have store: "localStorage ?w' = None"
    by (cases resp) (simp_all add: fetchQuestions_def console_log_def)
  from assms have session: "quizState ?w' =
      (case resp of
         ResponseOk qs \<Rightarrow> Some \<lparr>questions = map unanswered qs, currentQuestionIndex = 0,
                                 score = 0, difficulty = d\<rparr>
       | ResponseNotOk \<Rightarrow> None
       | FetchThrows \<Rightarrow> None)"
    by (cases resp) (simp_all add: fetchQuestions_def console_log_def)
  have "quizState ?w' \<noteq> Some (recoverQuizState snap)"
  proof
    assume "quizState ?w' = Some (recoverQuizState snap)"
    then have "map_option difficulty (quizState ?w') = Some (difficulty snap)"
      by (simp add: recover_fields)
    with assms session show False
      by (cases resp) simp_all
  qed
  with effect store session show ?thesis by simp
qed

theorem other_tier_is_discarded_witness:
  "localStorage (emptyWorld\<lparr>localStorage := Some (Encoded brokenSnapshot)\<rparr>)
     = Some (Encoded brokenSnapshot) \<and>
   difficulty brokenSnapshot \<noteq> Hard \<and>
   quizState (emptyWorld\<lparr>localStorage := Some (Encoded brokenSnapshot)\<rparr>) = None \<and>
   mountEffect Hard (ResponseOk [question1])
       (emptyWorld\<lparr>localStorage := Some (Encoded brokenSnapshot)\<rparr>)
     = Inr (emptyWorld\<lparr>quizState := Some \<lparr>questions = [unanswered question1],
              currentQuestionIndex = 0, score = 0, difficulty = Hard\<rparr>\<rparr>)"
proof -
  have a: "localStorage (emptyWorld\<lparr>localStorage := Some (Encoded brokenSnapshot)\<rparr>)
     = Some (Encoded brokenSnapshot)"
    by simp
  have b: "difficulty brokenSnapshot \<noteq> Hard"
    by (simp add: brokenSnapshot_def)
  have c: "quizState (emptyWorld\<lparr>localStorage := Some (Encoded brokenSnapshot)\<rparr>) = None"
    by (simp add: emptyWorld_def)
  from other_tier_is_discarded[OF a b c, of "ResponseOk [question1]"] a b c show ?thesis
    by (simp add: fetchQuestions_def emptyWorld_def)
qed

subsection \<open>Completion\<close>

text \<open>
  C8. Whenever \<open>handleComplete\<close> runs on a session, whoever is signed in or nobody, and
  whether or not \<open>getDoc\<close> or \<open>updateDoc\<close> throws, the item is removed from the store
  and the navigation to the result page carries the score and the number of questions
  of the session. A failure of the profile update adds its message to the console and
  changes neither of the two.
\<close>

theorem completion_always_clears_and_hands_off:
  assumes "quizState w = Some s"
  shows "localStorage (handleComplete getDocThrows updateDocThrows w) = None \<and>
         navigated (handleComplete getDocThrows updateDocThrows w) =
           navigated w @ [Complete (score s) (length (questions s))] \<and>
         (currentUser w \<noteq> None \<and> (getDocThrows \<or> updateDocThrows) \<longrightarrow>
            console (handleComplete getDocThrows updateDocThrows w) =
              console w @ [ScoreUpdateFailed] \<and>
            users (handleComplete getDocThrows updateDocThrows w) = users w) \<and>
         (currentUser w = None \<longrightarrow>
            console (handleComplete getDocThrows updateDocThrows w) = console w \<and>
            users (handleComplete getDocThrows updateDocThrows w) = users w)"
  using assms
  by (auto simp: handleComplete_def console_log_def Let_def split: option.splits)

theorem completion_always_clears_and_hands_off_witness:
  "quizState signedInWorld = Some lastAnswered \<and>
   currentUser signedInWorld \<noteq> None \<and>
   localStorage signedInWorld \<noteq> None \<and>
   localStorage (handleComplete True False signedInWorld) = None \<and>
   navigated (handleComplete True False signedInWorld) = [Complete 1 1] \<and>
   console (handleComplete True False signedInWorld) = [ScoreUpdateFailed] \<and>
   users (handleComplete True False signedInWorld) = users signedInWorld \<and>
   quizState (signedInWorld\<lparr>currentUser := None\<rparr>) = Some lastAnswered \<and>
   currentUser (signedInWorld\<lparr>currentUser := None\<rparr>) = None \<and>
   localStorage (handleComplete False False (signedInWorld\<lparr>currentUser := None\<rparr>)) = None \<and>
   navigated (handleComplete False False (signedInWorld\<lparr>currentUser := None\<rparr>))
     = [Complete 1 1] \<and>
   console (handleComplete False False (signedInWorld\<lparr>currentUser := None\<rparr>)) = []"
proof -
  have a: "quizState signedInWorld = Some lastAnswered"
    by (simp add: signedInWorld_def emptyWorld_def)
  have a': "quizState (signedInWorld\<lparr>currentUser := None\<rparr>) = Some lastAnswered"
    by (simp add: signedInWorld_def emptyWorld_def)
  have b: "currentUser signedInWorld \<noteq> None" "localStorage signedInWorld \<noteq> None"
    "navigated signedInWorld = []" "console signedInWorld = []"
    by (simp_all add: signedInWorld_def emptyWorld_def)
  have c: "score lastAnswered = 1" "length (questions lastAnswered) = 1"
    by (simp_all add: lastAnswered_def)
  from completion_always_clears_and_hands_off[OF a, of True False]
    completion_always_clears_and_hands_off[OF a', of False False] a a' b c
  show ?thesis
    by simp
qed

subsection \<open>No question is skipped\<close>

lemma list_all_take_update:
  assumes "list_all P (take n xs)" and "P y"
  shows "list_all P (take n (xs[i := y]))"
proof -
  have "set ((take n xs)[i := y]) \<subseteq> insert y (set (take n xs))"
    by (rule set_update_subset_insert)
  with assms show ?thesis
    by (auto simp: list_all_iff take_update_swap)
qed

lemma list_all_take_next:
  assumes "list_all P (take n xs)" and "n < length xs" and "P (xs ! n)"
  shows "list_all P (take (Suc n) xs)"
  using assms by (simp add: take_Suc_conv_app_nth)

lemma recover_answeredUpTo: "answeredUpTo (recoverQuizState s) = answeredUpTo s"
  by (simp add: answeredUpTo_def noneSkipped_def recover_fields)

lemma fetch_answeredUpTo:
  assumes "answeredUpToWorld w"
  shows "answeredUpToWorld (fetchQuestions d resp w)"
  using assms
  by (cases resp)
     (simp_all add: fetchQuestions_def console_log_def answeredUpToWorld_def answeredUpTo_def
        noneSkipped_def)

lemma persist_answeredUpTo:
  assumes "answeredUpToWorld w"
  shows "answeredUpToWorld (persistEffect w)"
  using assms
  by (auto simp: persistEffect_def answeredUpToWorld_def split: option.splits)

lemma rerender_answeredUpTo:
  assumes "answeredUpToWorld w"
  shows "answeredUpToWorld (rerender w0 w)"
  using assms by (simp add: rerender_def persist_answeredUpTo)

lemma mount_answeredUpTo:
  assumes "answeredUpToWorld w" and "mountEffect d resp (initialState w) = Inr w'"
  shows "answeredUpToWorld w'"
proof -
  from assms(1) have cleared: "answeredUpToWorld ((initialState w)\<lparr>localStorage := None\<rparr>)"
    by (simp add: answeredUpToWorld_def initialState_def)
  show ?thesis
  proof (cases "localStorage (initialState w)")
    case None
    with assms(2) cleared show ?thesis
      by (auto simp: mountEffect_def intro: fetch_answeredUpTo)
  next
    case (Some item)
    show ?thesis
    proof (cases item)
      case Garbled
      with Some assms(2) show ?thesis by (simp add: mountEffect_def)
    next
      case (Encoded saved)
      from Some Encoded assms(1) have saved: "answeredUpTo saved"
        by (simp add: answeredUpToWorld_def initialState_def)
      show ?thesis
      proof (cases "difficulty saved = d")
        case True
        with Some Encoded assms(2)
        have "w' = (initialState w)\<lparr>quizState := Some (recoverQuizState saved)\<rparr>"
          by (simp add: mountEffect_def)
        with Some Encoded saved show ?thesis
          by (simp add: answeredUpToWorld_def recover_answeredUpTo)
      next
        case False
        with Some Encoded assms(2) cleared show ?thesis
          by (auto simp: mountEffect_def intro: fetch_answeredUpTo)
      qed
    qed
  qed
qed

lemma answer_answeredUpTo:
  assumes "answeredUpToWorld w" and "handleAnswer a w = Inr w'"
  shows "answeredUpToWorld w'"
  using assms
  by (auto simp: handleAnswer_def answeredUpToWorld_def answeredUpTo_def noneSkipped_def
        console_log_def Let_def list_all_take_update
      split: option.splits if_splits)

lemma complete_answeredUpTo:
  assumes "answeredUpToWorld w"
  shows "answeredUpToWorld (handleComplete g u w)"
  using assms
  by (auto simp: handleComplete_def answeredUpToWorld_def console_log_def Let_def
      split: option.splits)

lemma next_answeredUpTo:
  assumes "answeredUpToWorld w" and "currentAnswered w"
  shows "answeredUpToWorld (nextQuestion g u w)"
proof -
  let ?w' = "w\<lparr>showModal := False, showExplanation := False\<rparr>"
  from assms(2) obtain s q where s: "quizState w = Some s"
    and q: "at_index (questions s) (currentQuestionIndex s) = Some q"
    and a: "userAnswer q \<noteq> None"
    by (auto simp: currentAnswered_def split: option.splits)
  from q have range: "0 \<le> currentQuestionIndex s"
    "nat (currentQuestionIndex s) < length (questions s)"
    and nth: "questions s ! nat (currentQuestionIndex s) = q"
    by (auto simp: at_index_def split: if_splits)
  from assms(1) have w': "answeredUpToWorld ?w'"
    by (simp add: answeredUpToWorld_def)
  show ?thesis
  proof (cases "currentQuestionIndex s + 1 \<ge> int (length (questions s))")
    case True
    with s have "nextQuestion g u w = handleComplete g u ?w'"
      by (simp add: nextQuestion_def Let_def)
    with w' show ?thesis by (simp add: complete_answeredUpTo)
  next
    case False
    with s have eq: "nextQuestion g u w =
        ?w'\<lparr>quizState := Some (s\<lparr>currentQuestionIndex := currentQuestionIndex s + 1\<rparr>)\<rparr>"
      by (simp add: nextQuestion_def Let_def)
    from assms(1) s have "list_all (\<lambda>q. userAnswer q \<noteq> None)
        (take (nat (currentQuestionIndex s)) (questions s))"
      by (simp add: answeredUpToWorld_def answeredUpTo_def noneSkipped_def)
    with range nth a have "list_all (\<lambda>q. userAnswer q \<noteq> None)
        (take (Suc (nat (currentQuestionIndex s))) (questions s))"
      by (intro list_all_take_next) simp_all
    moreover from range have "nat (currentQuestionIndex s + 1) = Suc (nat (currentQuestionIndex s))"
      by simp
    ultimately have "answeredUpTo (s\<lparr>currentQuestionIndex := currentQuestionIndex s + 1\<rparr>)"
      using range by (simp add: answeredUpTo_def noneSkipped_def)
    with eq assms(1) show ?thesis
      by (simp add: answeredUpToWorld_def)
  qed
qed

lemma step_answeredUpTo:
  assumes "answeredUpToWorld w" and "respectsPrecondition e w" and "step e w = Inr w'"
  shows "answeredUpToWorld w'"
proof (cases e)
  case (Mount d resp)
  with assms show ?thesis
    by (auto split: sum.splits intro: rerender_answeredUpTo mount_answeredUpTo)
next
  case (ClickOption a)
  with assms show ?thesis
    by (auto split: sum.splits intro: rerender_answeredUpTo answer_answeredUpTo)
next
  case (ClickNext g u)
  with assms show ?thesis
    by (auto intro: rerender_answeredUpTo next_answeredUpTo)
next
  case (ClickResult g u)
  with assms show ?thesis
    by (auto intro: complete_answeredUpTo)
next
  case ClickExplanation
  with assms show ?thesis
    by (auto simp: identificationButton_def answeredUpToWorld_def)
next
  case CloseModal
  with assms show ?thesis
    by (auto simp: answeredUpToWorld_def)
qed

lemma run_reachableAnswered:
  "reachableAnswered w \<Longrightarrow> runRespects es w \<Longrightarrow> run es w = Inr w' \<Longrightarrow> reachableAnswered w'"
proof (induction es arbitrary: w)
  case Nil
  then show ?case by simp
next
  case (Cons e es)
  then show ?case
    by (auto split: sum.splits intro: reachableAnswered.event)
qed

lemma run_to_second_question_respects:
  "runRespects
     [Mount Medium (ResponseOk [question1, question2]), ClickOption 0, ClickNext False False]
     emptyWorld"
  by (simp add: handlers currentAnswered_def emptyWorld_def answeredWith_def question1_def
      question2_def)

text \<open>
  C9. In every world reached from an empty store by loads, answers, completions and those
  advances that find the current question answered, every question of the session at an
  index below the current one has an answer.
\<close>

theorem no_question_is_skipped:
  assumes "reachableAnswered w" and "quizState w = Some s"
    and "i < length (questions s)" and "int i < currentQuestionIndex s"
  shows "userAnswer (questions s ! i) \<noteq> None"
proof -
  from assms(1) have "answeredUpToWorld w"
  proof (induction rule: reachableAnswered.induct)
    case (fresh w)
    then show ?case by (simp add: answeredUpToWorld_def)
  next
    case (event w e w')
    then show ?case by (blast intro: step_answeredUpTo)
  qed
  with assms(2) have "list_all (\<lambda>q. userAnswer q \<noteq> None)
      (take (nat (currentQuestionIndex s)) (questions s))"
    by (simp add: answeredUpToWorld_def answeredUpTo_def noneSkipped_def)
  moreover from assms(3,4) have "questions s ! i \<in> set (take (nat (currentQuestionIndex s)) (questions s))"
    by (auto simp: in_set_conv_nth intro!: exI[of _ i])
  ultimately show ?thesis
    by (simp add: list_all_iff)
qed

theorem no_question_is_skipped_witness:
  "reachableAnswered secondQuestionWorld \<and>
   quizState secondQuestionWorld = Some secondQuestion \<and>
   (0::nat) < length (questions secondQuestion) \<and>
   int 0 < currentQuestionIndex secondQuestion \<and>
   userAnswer (questions secondQuestion ! 0) \<noteq> None"
proof -
  have "reachableAnswered emptyWorld"
    by (rule reachableAnswered.fresh) (simp_all add: emptyWorld_def)
  then have r: "reachableAnswered secondQuestionWorld"
    by (rule run_reachableAnswered)
       (rule run_to_second_question_respects, rule run_to_second_question)
  have q: "quizState secondQuestionWorld = Some secondQuestion"
    by (simp add: secondQuestionWorld_def emptyWorld_def)
  have l: "(0::nat) < length (questions secondQuestion)"
    "int 0 < currentQuestionIndex secondQuestion"
    by (simp_all add: secondQuestion_def)
  from no_question_is_skipped[OF r q l] r q l show ?thesis
    by simp
qed

subsection \<open>Advancing on the last question\<close>

text \<open>
  C4, as stated, fails: the session has no completed state, and \<open>nextQuestion\<close> on the
  last question calls \<open>handleComplete\<close> and returns the state it found. For a signed-in
  user who has played no game, one call leaves one game in the profile and a second
  call leaves two, with two navigations to the result page.
\<close>

theorem second_advance_completes_again:
  "map_option totalGames (users (nextQuestion False False signedInWorld) ''alice'') = Some 1 \<and>
   map_option totalGames
     (users (nextQuestion False False (nextQuestion False False signedInWorld)) ''alice'')
     = Some 2 \<and>
   navigated (nextQuestion False False (nextQuestion False False signedInWorld))
     = [Complete 1 1, Complete 1 1] \<and>
   nextQuestion False False (nextQuestion False False signedInWorld)
     \<noteq> nextQuestion False False signedInWorld"
proof -
  have one: "navigated (nextQuestion False False signedInWorld) = [Complete 1 1]"
    by (simp add: handlers signedInWorld_def lastAnswered_def emptyWorld_def answeredWith_def
        question1_def)
  have two: "navigated (nextQuestion False False (nextQuestion False False signedInWorld))
      = [Complete 1 1, Complete 1 1]"
    by (simp add: handlers signedInWorld_def lastAnswered_def emptyWorld_def answeredWith_def
        question1_def)
  from one two
  have "nextQuestion False False (nextQuestion False False signedInWorld)
      \<noteq> nextQuestion False False signedInWorld"
    by (metis list.inject not_Cons_self2)
  moreover
  have "map_option totalGames (users (nextQuestion False False signedInWorld) ''alice'') = Some 1"
    by (simp add: handlers signedInWorld_def lastAnswered_def emptyWorld_def answeredWith_def
        question1_def)
  moreover
  have "map_option totalGames
      (users (nextQuestion False False (nextQuestion False False signedInWorld)) ''alice'')
      = Some 2"
    by (simp add: handlers signedInWorld_def lastAnswered_def emptyWorld_def answeredWith_def
        question1_def)
  ultimately show ?thesis using two by simp
qed

text \<open>
  C4, amended. Every call of \<open>nextQuestion\<close> on the last question runs the completion
  sequence and leaves the session as it is, so a repeated call runs it again: for a
  signed-in user with a profile document, when the profile store does not fail, each call
  adds one game and the score to the profile, removes the item from the store and
  navigates to the result page.
\<close>

theorem advance_on_last_question_completes_every_time:
  assumes "quizState w = Some s"
    and "int (length (questions s)) \<le> currentQuestionIndex s + 1"
    and "currentUser w = Some uid"
    and "users w uid = Some u"
  shows "quizState (nextQuestion False False w) = Some s \<and>
         currentUser (nextQuestion False False w) = Some uid \<and>
         users (nextQuestion False False w) uid =
           Some \<lparr>totalGames = totalGames u + 1, totalScore = totalScore u + score s,
                 averageScore = real_of_int (totalScore u + score s)
                                  / real_of_int (totalGames u + 1)\<rparr> \<and>
         localStorage (nextQuestion False False w) = None \<and>
         navigated (nextQuestion False False w) =
           navigated w @ [Complete (score s) (length (questions s))] \<and>
         map_option totalGames
           (users (nextQuestion False False (nextQuestion False False w)) uid)
           = Some (totalGames u + 2) \<and>
         map_option totalScore
           (users (nextQuestion False False (nextQuestion False False w)) uid)
           = Some (totalScore u + 2 * score s)"
  using assms
  by (simp add: nextQuestion_def handleComplete_def Let_def)

theorem advance_on_last_question_completes_every_time_witness:
  "quizState signedInWorld = Some lastAnswered \<and>
   int (length (questions lastAnswered)) \<le> currentQuestionIndex lastAnswered + 1 \<and>
   currentUser signedInWorld = Some ''alice'' \<and>
   users signedInWorld ''alice'' = Some \<lparr>totalGames = 0, totalScore = 0, averageScore = 0\<rparr> \<and>
   quizState (nextQuestion False False signedInWorld) = Some lastAnswered \<and>
   users (nextQuestion False False signedInWorld) ''alice'' =
     Some \<lparr>totalGames = 1, totalScore = 1, averageScore = 1\<rparr> \<and>
   localStorage (nextQuestion False False signedInWorld) = None \<and>
   navigated (nextQuestion False False signedInWorld) = [Complete 1 1] \<and>
   map_option totalScore
     (users (nextQuestion False False (nextQuestion False False signedInWorld)) ''alice'')
     = Some 2"
proof -
  have a: "quizState signedInWorld = Some lastAnswered"
    by (simp add: signedInWorld_def emptyWorld_def)
  have b: "int (length (questions lastAnswered)) \<le> currentQuestionIndex lastAnswered + 1"
    by (simp add: lastAnswered_def)
  have c: "currentUser signedInWorld = Some ''alice''"
    by (simp add: signedInWorld_def emptyWorld_def)
  have d: "users signedInWorld ''alice'' = Some \<lparr>totalGames = 0, totalScore = 0, averageScore = 0\<rparr>"
    by (simp add: signedInWorld_def emptyWorld_def)
  have e: "score lastAnswered = 1" "length (questions lastAnswered) = 1"
    "navigated signedInWorld = []"
    by (simp_all add: lastAnswered_def signedInWorld_def emptyWorld_def)
  from advance_on_last_question_completes_every_time[OF a b c d] a b c d e show ?thesis
    by simp
qed

subsection \<open>An empty list of questions\<close>

text \<open>
  C5, as stated, fails: \<open>fetchQuestions\<close> puts the list of an ok response into the
  state without looking at its length. Loading the tier \<open>Easy\<close> with an empty list as
  the answer gives a session with no question, which is also written to the store.
\<close>

theorem empty_list_gives_session:
  "step (Mount Easy (ResponseOk [])) emptyWorld =
     Inr (emptyWorld
       \<lparr>quizState := Some \<lparr>questions = [], currentQuestionIndex = 0, score = 0,
                            difficulty = Easy\<rparr>,
        localStorage := Some (Encoded \<lparr>questions = [], currentQuestionIndex = 0, score = 0,
                            difficulty = Easy\<rparr>)\<rparr>)"
  by (simp add: handlers emptyWorld_def)

text \<open>
  C5, amended. On every list that an ok response carries, empty or not,
  \<open>fetchQuestions\<close> constructs the session of these questions, unanswered, at index 0
  with score 0; it constructs none, and leaves the state as it is, only when the request
  throws or the response is not ok.
\<close>

theorem fetch_accepts_every_list:
  "quizState (fetchQuestions d (ResponseOk qs) w) =
     Some \<lparr>questions = map unanswered qs, currentQuestionIndex = 0, score = 0,
           difficulty = d\<rparr> \<and>
   map_option (\<lambda>s. length (questions s)) (quizState (fetchQuestions d (ResponseOk qs) w))
     = Some (length qs) \<and>
   quizState (fetchQuestions d ResponseNotOk w) = quizState w \<and>
   quizState (fetchQuestions d FetchThrows w) = quizState w"
  by (simp add: fetchQuestions_def console_log_def)

subsection \<open>A malformed snapshot\<close>




















end
